theory Spec2Isabelle
  imports Complex_Main
begin

section \<open>Conventions of the embedding\<close>

text \<open>
  The engine is Python. Its floats are modelled as \<^typ>\<open>real\<close>: every comparison and
  every arithmetic step of the source is kept, rounding error is not. Python's unbounded
  integers are \<^typ>\<open>int\<close> or \<^typ>\<open>nat\<close> (counts and lengths).

  A dictionary read with \<^verbatim>\<open>d.get(k, default)\<close> tells three cases apart: the key is
  absent, the key is bound to \<^verbatim>\<open>None\<close>, the key is bound to a value.
\<close>

datatype 'a entry = Absent | PyNone | Present 'a

datatype py_error = TypeError | ValueError | SearchError

text \<open>\<^verbatim>\<open>d.get(k, default)\<close>: the default replaces an absent key only.\<close>

definition get_default :: "'a entry \<Rightarrow> 'a \<Rightarrow> 'a option" where
  "get_default e d = (case e of Absent \<Rightarrow> Some d | PyNone \<Rightarrow> None | Present v \<Rightarrow> Some v)"

text \<open>\<^verbatim>\<open>d.get(k)\<close>: absent and \<^verbatim>\<open>None\<close> both read as \<^verbatim>\<open>None\<close>.\<close>

definition get_entry :: "'a entry \<Rightarrow> 'a option" where
  "get_entry e = (case e of Present v \<Rightarrow> Some v | _ \<Rightarrow> None)"

text \<open>
  \<^verbatim>\<open>d.get(k) or default\<close> on a number: \<^verbatim>\<open>None\<close> and zero are both falsy.
\<close>

definition py_or :: "real option \<Rightarrow> real \<Rightarrow> real" where
  "py_or v d = (case v of None \<Rightarrow> d | Some x \<Rightarrow> if x = 0 then d else x)"

text \<open>\<^verbatim>\<open>int(x)\<close> on a float truncates towards zero.\<close>

definition py_int :: "real \<Rightarrow> int" where
  "py_int x = (if 0 \<le> x then \<lfloor>x\<rfloor> else \<lceil>x\<rceil>)"

text \<open>
  \<^verbatim>\<open>round(x, n)\<close> rounds to \<open>n\<close> decimal digits, a tie going to the even neighbour.
\<close>

definition round_half_even :: "real \<Rightarrow> int" where
  "round_half_even x =
     (let f = \<lfloor>x\<rfloor>; d = x - of_int f
      in if d < 1 / 2 then f
         else if 1 / 2 < d then f + 1
         else if even f then f else f + 1)"

definition py_round :: "real \<Rightarrow> int \<Rightarrow> real" where
  "py_round x n =
     (if 0 \<le> n then of_int (round_half_even (x * 10 ^ nat n)) / 10 ^ nat n
      else of_int (round_half_even (x / 10 ^ nat (- n))) * 10 ^ nat (- n))"

section \<open>Data model\<close>

text \<open>
  The application is the dictionary \<^verbatim>\<open>find_twins\<close> receives, as parsed from the
  JSON body of a request: a key is absent, bound to \<^verbatim>\<open>None\<close> (JSON \<^verbatim>\<open>null\<close>), or
  bound to a number or a string.
\<close>

record application =
  requested_amount :: "real entry"
  annual_income_snapshot :: "real entry"
  dti_snapshot :: "real entry"
  payment_to_income_ratio :: "real entry"
  loan_to_income_ratio :: "real entry"
  revolving_utilization_snapshot :: "real entry"
  fico_snapshot :: "real entry"
  credit_history_length_snapshot :: "real entry"
  nb_previous_loans :: "real entry"
  open_accounts :: "real entry"
  total_accounts :: "real entry"
  delinquencies_2y :: "real entry"
  inquiries_6m :: "real entry"
  public_records :: "real entry"
  loan_term :: "string entry"
  grade :: "string entry"
  loan_purpose :: "string entry"

text \<open>
  The payload of a stored case, with the keys \<^verbatim>\<open>twin_search.py\<close> reads. The keys read
  by subscript (\<^verbatim>\<open>outcome\<close>, \<^verbatim>\<open>requested_amount\<close>) are always there;
  \<^verbatim>\<open>build_qdrant_vectors\<close> stores \<^verbatim>\<open>None\<close> for an amount, a FICO or a DTI that is
  missing or zero. The two flags are stored as booleans, and their \<^verbatim>\<open>.get(k, 0)\<close>
  default reads as \<open>False\<close>.
\<close>

record payload =
  p_application_id :: string
  p_outcome :: string
  p_requested_amount :: "real option"
  p_fico :: "real entry"
  p_dti :: "real entry"
  p_is_fraud_suspect :: bool
  p_is_comeback_story :: bool

record neighbor =
  payload :: payload
  score :: real

record top_twin =
  t_application_id :: string
  t_similarity :: real
  t_outcome :: string
  t_requested_amount :: "real option"
  t_fico :: "real option"
  t_dti :: "real option"

text \<open>
  The statistics dictionary. The branch for the empty cohort builds it without the key
  \<^verbatim>\<open>rejected_count\<close>, hence the option.
\<close>

record analysis =
  total_twins :: nat
  success_count :: nat
  default_count :: nat
  late_count :: nat
  rejected_count :: "nat option"
  success_rate :: real
  default_rate :: real
  late_rate :: real
  avg_similarity :: real
  top_twins :: "top_twin list"

section \<open>Cohort analysis: \<^verbatim>\<open>analyze_twins\<close>\<close>

text \<open>\<^verbatim>\<open>sum(1 for r in results if r["payload"]["outcome"] == label)\<close>\<close>

fun count_outcome :: "string \<Rightarrow> neighbor list \<Rightarrow> nat" where
  "count_outcome label [] = 0"
| "count_outcome label (r # rs) =
     (if p_outcome (payload r) = label then 1 + count_outcome label rs
      else count_outcome label rs)"

text \<open>\<^verbatim>\<open>sum(r["score"] for r in results)\<close>\<close>

fun sum_scores :: "neighbor list \<Rightarrow> real" where
  "sum_scores [] = 0"
| "sum_scores (r # rs) = score r + sum_scores rs"

definition summarize :: "neighbor \<Rightarrow> top_twin" where
  "summarize r =
     (let p = payload r
      in \<lparr>t_application_id = p_application_id p,
          t_similarity = py_round (score r) 3,
          t_outcome = p_outcome p,
          t_requested_amount = p_requested_amount p,
          t_fico = get_entry (p_fico p),
          t_dti = get_entry (p_dti p)\<rparr>)"

definition analyze_twins :: "neighbor list \<Rightarrow> analysis" where
  "analyze_twins results =
     (let total = length results
      in if total = 0 then
           \<lparr>total_twins = 0, success_count = 0, default_count = 0, late_count = 0,
            rejected_count = None,
            success_rate = 0, default_rate = 0, late_rate = 0, avg_similarity = 0,
            top_twins = []\<rparr>
         else
           let success = count_outcome ''success'' results;
               default = count_outcome ''default'' results;
               late = count_outcome ''late_payments'' results;
               rejected = count_outcome ''rejected'' results;
               avg_score = sum_scores results / real total
           in \<lparr>total_twins = total, success_count = success, default_count = default,
               late_count = late, rejected_count = Some rejected,
               success_rate = real success / real total,
               default_rate = real default / real total,
               late_rate = real late / real total,
               avg_similarity = avg_score,
               top_twins = map summarize (take 5 results)\<rparr>)"

section \<open>Decision policy: \<^verbatim>\<open>make_decision\<close>\<close>

datatype verdict =
  APPROVED | APPROVED_WITH_CONDITIONS | MANUAL_REVIEW | REJECTED | ANOMALY_DETECTED

text \<open>
  The reason strings, by template; the number is the one the f-string interpolates
  (\<^verbatim>\<open>len(results)\<close>, \<^verbatim>\<open>int(success_rate*100)\<close>).
\<close>

datatype reason =
  Only_found nat
  | Identity_anomaly
  | Exceptional int
  | Solid_performance
  | Neutral_range int
  | Inadequate int

record roadmap =
  target_fico :: real
  target_dti :: real
  message_fico :: int
  message_dti :: "real option"

record offer =
  amount :: real
  message_amount :: int

record result =
  decision :: verdict
  confidence :: real
  reason :: reason
  conditions :: "string list option"
  recommended_amount :: "real entry"
  analysis :: "analysis option"
  twins_found :: "nat option"
  action :: "string option"
  is_fraud_suspect :: "bool option"
  roadmap :: "roadmap option"
  alternative_offer :: "offer option"
  nudge :: "string option"
  explanation :: string

text \<open>A dictionary with the three keys every branch sets and no other key.\<close>

definition base_result :: "verdict \<Rightarrow> real \<Rightarrow> reason \<Rightarrow> result" where
  "base_result v c r =
     \<lparr>decision = v, confidence = c, reason = r, conditions = None,
      recommended_amount = Absent, analysis = None, twins_found = None, action = None,
      is_fraud_suspect = None, roadmap = None, alternative_offer = None, nudge = None,
      explanation = []\<rparr>"

definition opt_entry :: "'a option \<Rightarrow> 'a entry" where
  "opt_entry v = (case v of None \<Rightarrow> PyNone | Some x \<Rightarrow> Present x)"

text \<open>
  In the second row \<^verbatim>\<open>application.get("requested_amount", 0) * 0.75\<close> multiplies
  what the dictionary holds: the default 0 for an absent key, the number, or
  \<^verbatim>\<open>None\<close>, and \<^verbatim>\<open>None * 0.75\<close> raises \<^verbatim>\<open>TypeError\<close>.
\<close>

definition make_decision :: "analysis \<Rightarrow> application \<Rightarrow> py_error + result" where
  "make_decision a app =
     (let sr = success_rate a; dr = default_rate a
      in if 99 / 100 \<le> sr \<and> dr < 5 / 100 then
           Inr ((base_result APPROVED (avg_similarity a) (Exceptional (py_int (sr * 100))))
                  \<lparr>conditions := Some [],
                   recommended_amount := opt_entry (get_entry (requested_amount app)),
                   analysis := Some a\<rparr>)
         else if 90 / 100 \<le> sr \<and> dr < 10 / 100 then
           case (if 5 / 100 < dr
                 then (case get_default (requested_amount app) 0 of
                         None \<Rightarrow> Inl TypeError
                       | Some x \<Rightarrow>
                           Inr ([''Mandatory 25% reduction in requested amount''],
                                Present (x * (75 / 100))))
                 else Inr ([], opt_entry (get_entry (requested_amount app))))
           of Inl e \<Rightarrow> Inl e
            | Inr (c1, amt) \<Rightarrow>
                let c2 = (if 10 / 100 < late_rate a
                          then c1 @ [''Interest rate premium (+1.5% APR)''] else c1);
                    c3 = (if c2 = []
                          then c2 @ [''Standard conditions with enhanced monitoring'']
                          else c2)
                in Inr ((base_result APPROVED_WITH_CONDITIONS (avg_similarity a)
                           Solid_performance)
                          \<lparr>conditions := Some c3, recommended_amount := amt,
                           analysis := Some a\<rparr>)
         else if 85 / 100 \<le> sr then
           Inr ((base_result MANUAL_REVIEW (avg_similarity a)
                   (Neutral_range (py_int (sr * 100))))
                  \<lparr>analysis := Some a\<rparr>)
         else
           Inr ((base_result REJECTED (avg_similarity a) (Inadequate (py_int (sr * 100))))
                  \<lparr>analysis := Some a\<rparr>))"

section \<open>Feature encoding: \<^verbatim>\<open>embeddings.py\<close>\<close>

text \<open>
  \<^verbatim>\<open>str.strip()\<close> removes leading and trailing whitespace. A \<^typ>\<open>char\<close> is a byte,
  so the whitespace here is the ASCII part of Python's.
\<close>

definition is_space :: "char \<Rightarrow> bool" where
  "is_space c = (c \<in> set [CHR 0x09, CHR 0x0A, CHR 0x0B, CHR 0x0C, CHR 0x0D,
                            CHR 0x1C, CHR 0x1D, CHR 0x1E, CHR 0x1F, CHR 0x20])"

definition strip :: "string \<Rightarrow> string" where
  "strip s = rev (dropWhile is_space (rev (dropWhile is_space s)))"

definition encode_grade :: "string option \<Rightarrow> real" where
  "encode_grade g =
     (case g of
        None \<Rightarrow> 1 / 2
      | Some s \<Rightarrow>
          if s = [] then 1 / 2
          else let k = strip s
               in if k = ''A'' then 1
                  else if k = ''B'' then 85 / 100
                  else if k = ''C'' then 70 / 100
                  else if k = ''D'' then 55 / 100
                  else if k = ''E'' then 40 / 100
                  else if k = ''F'' then 25 / 100
                  else if k = ''G'' then 10 / 100
                  else 1 / 2)"

text \<open>
  A coordinate of the vector is a float. All but the two logarithms are numbers;
  \<^verbatim>\<open>np.log1p\<close> gives \<^verbatim>\<open>-inf\<close> at \<open>-1\<close> and \<^verbatim>\<open>nan\<close> below it (with a warning,
  no exception), and both survive the division by 15.
\<close>

datatype pyfloat = Finite real | NegInf | NaN

definition log1p :: "real \<Rightarrow> pyfloat" where
  "log1p x = (if - 1 < x then Finite (ln (1 + x)) else if x = - 1 then NegInf else NaN)"

text \<open>Division of a float by a positive constant.\<close>

definition div_by :: "pyfloat \<Rightarrow> real \<Rightarrow> pyfloat" where
  "div_by v c = (case v of Finite y \<Rightarrow> Finite (y / c) | NegInf \<Rightarrow> NegInf | NaN \<Rightarrow> NaN)"



text \<open>\<^verbatim>\<open>1.0 if application.get(k) == s else 0.0\<close>\<close>

definition one_hot :: "string option \<Rightarrow> string \<Rightarrow> real" where
  "one_hot v s = (if v = Some s then 1 else 0)"

text \<open>\<^verbatim>\<open>while len(vector) < vector_size: vector.append(0.0)\<close>\<close>

function pad_to :: "pyfloat list \<Rightarrow> int \<Rightarrow> pyfloat list" where
  "pad_to vector vector_size =
     (if int (length vector) < vector_size
      then pad_to (vector @ [Finite 0]) vector_size
      else vector)"
  by pat_completeness auto
termination
  by (relation "measure (\<lambda>(v, n). nat (n - int (length v)))") auto

declare pad_to.simps [simp del]

text \<open>\<^verbatim>\<open>vector[:n]\<close>: a negative \<open>n\<close> counts from the end.\<close>

definition slice_to :: "'a list \<Rightarrow> int \<Rightarrow> 'a list" where
  "slice_to xs n = (if 0 \<le> n then take (nat n) xs else take (nat (int (length xs) + n)) xs)"

definition create_application_vector :: "application \<Rightarrow> int \<Rightarrow> pyfloat list" where
  "create_application_vector a vector_size =
     (let vector =
        [div_by (log1p (py_or (get_entry (requested_amount a)) 0)) 15,
         div_by (log1p (py_or (get_entry (annual_income_snapshot a)) 0)) 15,
         Finite (min (py_or (get_entry (dti_snapshot a)) 0 / 100) 1),
         Finite (min (py_or (get_entry (payment_to_income_ratio a)) 0) 1),
         Finite (min (py_or (get_entry (loan_to_income_ratio a)) 0) 1),
         Finite (min (py_or (get_entry (revolving_utilization_snapshot a)) 0 / 100) 1),
         Finite (py_or (get_entry (fico_snapshot a)) 650 / 850),
         Finite (min (py_or (get_entry (credit_history_length_snapshot a)) 0 / 50) 1),
         Finite (min (py_or (get_entry (nb_previous_loans a)) 0 / 10) 1),
         Finite (min (py_or (get_entry (open_accounts a)) 0 / 30) 1),
         Finite (min (py_or (get_entry (total_accounts a)) 0 / 50) 1),
         Finite (min (py_or (get_entry (delinquencies_2y a)) 0 / 10) 1),
         Finite (min (py_or (get_entry (inquiries_6m a)) 0 / 10) 1),
         Finite (min (py_or (get_entry (public_records a)) 0 / 5) 1),
         Finite (one_hot (get_entry (loan_term a)) '' 36 months''),
         Finite (one_hot (get_entry (loan_term a)) '' 60 months''),
         Finite (encode_grade (get_entry (grade a))),
         Finite (one_hot (get_entry (loan_purpose a)) ''debt_consolidation''),
         Finite (one_hot (get_entry (loan_purpose a)) ''credit_card''),
         Finite (one_hot (get_entry (loan_purpose a)) ''home_improvement''),
         Finite (one_hot (get_entry (loan_purpose a)) ''other''),
         Finite (one_hot (get_entry (loan_purpose a)) ''major_purchase'')]
      in slice_to (pad_to vector vector_size) vector_size)"

definition VECTOR_SIZE :: int where
  "VECTOR_SIZE = 50"

section \<open>The evaluation: \<^verbatim>\<open>find_twins\<close>\<close>

text \<open>
  Three collaborators are parameters of the model: \<^verbatim>\<open>search_similar\<close> (the index query,
  which returns the hits or raises), \<^verbatim>\<open>get_llm_explanation\<close> (the language model, which
  returns a text or \<^verbatim>\<open>None\<close> and never raises) and
  \<^verbatim>\<open>generate_friendly_explanation\<close> (the English templates, whose float formatting is
  left out). The parameter \<^verbatim>\<open>threshold\<close> is only printed.
\<close>

type_synonym filters = "(real \<times> real) option"
type_synonym search = "pyfloat list \<Rightarrow> int \<Rightarrow> filters \<Rightarrow> py_error + neighbor list"
type_synonym llm = "result \<Rightarrow> application \<Rightarrow> string option"
type_synonym template = "result \<Rightarrow> string"

text \<open>\<^verbatim>\<open>d["explanation"] = get_llm_explanation(d, app) or generate_friendly_explanation(d)\<close>\<close>

definition explain :: "llm \<Rightarrow> template \<Rightarrow> result \<Rightarrow> application \<Rightarrow> result" where
  "explain get_llm_explanation generate_friendly_explanation d app =
     d\<lparr>explanation :=
         (case get_llm_explanation d app of
            None \<Rightarrow> generate_friendly_explanation d
          | Some s \<Rightarrow> if s = [] then generate_friendly_explanation d else s)\<rparr>"

definition FRAUD_SIMILARITY_LIMIT :: real where
  "FRAUD_SIMILARITY_LIMIT = 999 / 1000"

text \<open>\<^verbatim>\<open>[r["payload"].get("is_fraud_suspect", 0) for r in results[:20]]\<close>\<close>

definition fraud_flags :: "neighbor list \<Rightarrow> nat list" where
  "fraud_flags results =
     map (\<lambda>r. if p_is_fraud_suspect (payload r) then 1 else 0) (take 20 results)"

text \<open>
  The roadmap dictionary of step 7. \<^verbatim>\<open>round(None, 1)\<close> and \<^verbatim>\<open>int(None)\<close> raise
  \<^verbatim>\<open>TypeError\<close>: the defaults of \<^verbatim>\<open>.get\<close> replace an absent key, not a stored
  \<^verbatim>\<open>None\<close>.
\<close>

definition make_roadmap :: "payload \<Rightarrow> py_error + roadmap" where
  "make_roadmap best_comeback =
     (case get_default (p_dti best_comeback) 20 of
        None \<Rightarrow> Inl TypeError
      | Some d \<Rightarrow>
          (case get_default (p_fico best_comeback) 0 of
             None \<Rightarrow> Inl TypeError
           | Some f0 \<Rightarrow>
               Inr \<lparr>target_fico = (case p_fico best_comeback of Present f \<Rightarrow> f | _ \<Rightarrow> 700),
                    target_dti = py_round d 1,
                    message_fico = py_int f0,
                    message_dti = get_entry (p_dti best_comeback)\<rparr>))"

text \<open>
  The safer-amount offer of step 7. The comparison multiplies
  \<^verbatim>\<open>new_application.get("requested_amount", 0)\<close> by 0.8, which raises
  \<^verbatim>\<open>TypeError\<close> on a key bound to \<^verbatim>\<open>None\<close>.
\<close>

definition make_offer :: "neighbor list \<Rightarrow> application \<Rightarrow> py_error + offer option" where
  "make_offer results app =
     (let successful_twins = filter (\<lambda>r. p_outcome (payload r) = ''success'') results
      in if successful_twins = [] then Inr None
         else
           let avg_safe_amount =
                 sum_list (map (\<lambda>r. py_or (p_requested_amount (payload r)) 0) successful_twins)
                   / real (length successful_twins)
           in case get_default (requested_amount app) 0 of
                None \<Rightarrow> Inl TypeError
              | Some x \<Rightarrow>
                  if avg_safe_amount < x * (8 / 10)
                  then Inr (Some \<lparr>amount = py_round avg_safe_amount (- 2),
                                  message_amount = py_int avg_safe_amount\<rparr>)
                  else Inr None)"

text \<open>Step 7 as a whole, run when the verdict is \<^verbatim>\<open>REJECTED\<close>.\<close>

definition rejected_signals :: "neighbor list \<Rightarrow> application \<Rightarrow> result \<Rightarrow> py_error + result" where
  "rejected_signals results app d =
     (let comebacks = filter (\<lambda>r. p_is_comeback_story (payload r)) results
      in case (case comebacks of
                 [] \<Rightarrow> Inr d
               | c # _ \<Rightarrow>
                   (case make_roadmap (payload c) of
                      Inl e \<Rightarrow> Inl e
                    | Inr rm \<Rightarrow> Inr (d\<lparr>roadmap := Some rm\<rparr>)))
         of Inl e \<Rightarrow> Inl e
          | Inr d' \<Rightarrow>
              (case make_offer results app of
                 Inl e \<Rightarrow> Inl e
               | Inr None \<Rightarrow> Inr d'
               | Inr (Some off) \<Rightarrow> Inr (d'\<lparr>alternative_offer := Some off\<rparr>)))"

text \<open>
  Step 8: \<^verbatim>\<open>"APPROVED" in decision["decision"]\<close> holds for the two approving verdicts;
  \<^verbatim>\<open>new_application.get("nb_previous_loans", 0) == 0\<close> is false for \<^verbatim>\<open>None\<close>.
\<close>

definition smart_nudge :: "application \<Rightarrow> result \<Rightarrow> result" where
  "smart_nudge app d =
     (if decision d = APPROVED \<or> decision d = APPROVED_WITH_CONDITIONS then
        if get_default (nb_previous_loans app) 0 = Some 0
        then d\<lparr>nudge := Some ''Build Your Legacy''\<rparr> else d
      else d)"

text \<open>
  The optional range filter on the amount, as the pair of its \<^verbatim>\<open>$gte\<close> and
  \<^verbatim>\<open>$lte\<close> bounds; there is none when the amount is absent or zero.
\<close>

definition amount_filters :: "application \<Rightarrow> filters" where
  "amount_filters new_application =
     (case get_entry (requested_amount new_application) of
        None \<Rightarrow> None
      | Some amt \<Rightarrow> if amt = 0 then None else Some (amt * (7 / 10), amt * (13 / 10)))"

definition find_twins ::
  "search \<Rightarrow> llm \<Rightarrow> template \<Rightarrow> application \<Rightarrow> int \<Rightarrow> py_error + result" where
  "find_twins search_similar get_llm_explanation generate_friendly_explanation
     new_application top_k =
     (let vector = create_application_vector new_application VECTOR_SIZE;
          filters = amount_filters new_application;
          results =
            (case search_similar vector top_k filters of Inl e \<Rightarrow> [] | Inr rs \<Rightarrow> rs)
      in if length results < 10 then
           Inr (explain get_llm_explanation generate_friendly_explanation
                  ((base_result ANOMALY_DETECTED 0 (Only_found (length results)))
                     \<lparr>twins_found := Some (length results),
                      action := Some ''MANUAL_REVIEW_REQUIRED''\<rparr>)
                  new_application)
         else
           let a = analyze_twins results
           in if 5 \<le> sum_list (fraud_flags results) \<or> FRAUD_SIMILARITY_LIMIT < avg_similarity a
              then
                Inr (explain get_llm_explanation generate_friendly_explanation
                       ((base_result REJECTED 1 Identity_anomaly)
                          \<lparr>is_fraud_suspect := Some True, analysis := Some a\<rparr>)
                       new_application)
              else
                case make_decision a new_application of
                  Inl e \<Rightarrow> Inl e
                | Inr d \<Rightarrow>
                    (case (if decision d = REJECTED
                           then rejected_signals results new_application d else Inr d)
                     of Inl e \<Rightarrow> Inl e
                      | Inr d' \<Rightarrow>
                          Inr (explain get_llm_explanation generate_friendly_explanation
                                 (smart_nudge new_application d') new_application)))"

section \<open>The in-process engine: \<^verbatim>\<open>services.py\<close>\<close>

record financial_twin =
  ft_id :: string
  ft_borrower_id :: string
  ft_age :: int
  ft_credit_score :: int
  ft_income :: real
  ft_debt :: real
  ft_assets :: real
  ft_loan_amount :: real
  ft_tenure :: int
  ft_employment :: string
  ft_sector :: string
  ft_purpose :: string
  ft_region :: string
  ft_decision :: string
  ft_outcome :: string
  ft_days_late :: int
  similarity :: real

definition calculate_anomaly_score :: "financial_twin list \<Rightarrow> real" where
  "calculate_anomaly_score twins =
     (if length twins = 0 then 1
      else
        let max_sim = similarity (twins ! 0);
            avg_sim = sum_list (map similarity twins) / real (length twins);
            decay_rate =
              (if 10 \<le> length twins \<and> 0 < max_sim
               then (similarity (twins ! 0) - similarity (twins ! min 9 (length twins - 1)))
                      / max_sim
               else 0);
            anomaly_from_similarity = 1 - max_sim;
            anomaly_from_decay = decay_rate;
            anomaly_from_density = 1 - avg_sim;
            anomaly_score =
              anomaly_from_similarity * (4 / 10) + anomaly_from_decay * (3 / 10)
                + anomaly_from_density * (3 / 10)
        in min 1 (max 0 anomaly_score))"

text \<open>
  \<^verbatim>\<open>np.dot\<close> on two one-dimensional arrays raises \<^verbatim>\<open>ValueError\<close> when their lengths
  differ; \<^verbatim>\<open>np.linalg.norm\<close> is the Euclidean norm.
\<close>

definition np_dot :: "real list \<Rightarrow> real list \<Rightarrow> py_error + real" where
  "np_dot vec_a vec_b =
     (if length vec_a \<noteq> length vec_b then Inl ValueError
      else Inr (sum_list (map (\<lambda>(x, y). x * y) (zip vec_a vec_b))))"

definition np_norm :: "real list \<Rightarrow> real" where
  "np_norm v = sqrt (sum_list (map (\<lambda>x. x * x) v))"

definition cosine_similarity :: "real list \<Rightarrow> real list \<Rightarrow> py_error + real" where
  "cosine_similarity vec_a vec_b =
     (case np_dot vec_a vec_b of
        Inl e \<Rightarrow> Inl e
      | Inr dot_product \<Rightarrow>
          let norm_a = np_norm vec_a; norm_b = np_norm vec_b
          in if norm_a = 0 \<or> norm_b = 0 then Inr 0
             else Inr (dot_product / (norm_a * norm_b)))"

section \<open>Sample inputs\<close>

text \<open>The application of the module's own test run.\<close>

definition test_application :: application where
  "test_application =
     \<lparr>requested_amount = Present 15000,
      annual_income_snapshot = Present 60000,
      dti_snapshot = Present (185 / 10),
      payment_to_income_ratio = Present (25 / 100),
      loan_to_income_ratio = Present (25 / 100),
      revolving_utilization_snapshot = Present (452 / 10),
      fico_snapshot = Present 720,
      credit_history_length_snapshot = Present (83 / 10),
      nb_previous_loans = Present 2,
      open_accounts = Present 8,
      total_accounts = Present 15,
      delinquencies_2y = Present 0,
      inquiries_6m = Present 1,
      public_records = Present 0,
      loan_term = Present '' 36 months'',
      grade = Present ''B'',
      loan_purpose = Present ''debt_consolidation''\<rparr>"

text \<open>
  A stored case with the given outcome, fraud flag, comeback flag and DTI, a FICO of 700,
  an amount of 15000 and a similarity of 0.8.
\<close>

definition stored_case :: "string \<Rightarrow> bool \<Rightarrow> bool \<Rightarrow> real entry \<Rightarrow> neighbor" where
  "stored_case out fraud comeback dti =
     \<lparr>payload =
        \<lparr>p_application_id = ''APP'', p_outcome = out, p_requested_amount = Some 15000,
         p_fico = Present 700, p_dti = dti, p_is_fraud_suspect = fraud,
         p_is_comeback_story = comeback\<rparr>,
      score = 8 / 10\<rparr>"

definition good_case :: neighbor where
  "good_case = stored_case ''success'' False False (Present 15)"

definition bad_case :: neighbor where
  "bad_case = stored_case ''default'' False False (Present 15)"

definition flagged_case :: neighbor where
  "flagged_case = stored_case ''success'' True False (Present 15)"

definition comeback_case :: neighbor where
  "comeback_case = stored_case ''default'' False True (Present (1234 / 100))"

text \<open>A comeback story whose DTI was zero or missing at ingestion, stored as \<^verbatim>\<open>None\<close>.\<close>

definition comeback_without_dti :: neighbor where
  "comeback_without_dti = stored_case ''default'' False True PyNone"

text \<open>Ten neighbours, six of them flagged as fraud suspects, all of them successes.\<close>

definition flagged_cohort :: "neighbor list" where
  "flagged_cohort =
     [flagged_case, flagged_case, flagged_case, flagged_case, flagged_case, flagged_case,
      good_case, good_case, good_case, good_case]"

definition small_cohort :: "neighbor list" where
  "small_cohort = [good_case, good_case, good_case, good_case, good_case]"

text \<open>Ten defaults; the second is a comeback story, the seventh another.\<close>

definition rejected_cohort :: "neighbor list" where
  "rejected_cohort =
     [bad_case, comeback_case, bad_case, bad_case, bad_case, bad_case,
      comeback_without_dti, bad_case, bad_case, bad_case]"

text \<open>Ten defaults, the first a comeback story stored without a DTI.\<close>

definition failing_cohort :: "neighbor list" where
  "failing_cohort =
     [comeback_without_dti, bad_case, bad_case, bad_case, bad_case, bad_case, bad_case,
      bad_case, bad_case, bad_case]"

definition fixed_index :: "neighbor list \<Rightarrow> search" where
  "fixed_index rs = (\<lambda>vector top_k filters. Inr rs)"

definition failing_index :: search where
  "failing_index = (\<lambda>vector top_k filters. Inl SearchError)"

definition no_llm :: llm where
  "no_llm = (\<lambda>d app. None)"

definition plain_template :: template where
  "plain_template = (\<lambda>d. ''template'')"




text \<open>The test application with its amount bound to \<^verbatim>\<open>None\<close>, and with a negative one.\<close>

definition null_amount_application :: application where
  "null_amount_application = test_application\<lparr>requested_amount := PyNone\<rparr>"


text \<open>A hundred neighbours, 92 successes and 8 defaults.\<close>

definition conditional_cohort :: "neighbor list" where
  "conditional_cohort = replicate 92 good_case @ replicate 8 bad_case"

text \<open>A historical twin of the in-process engine, with the given similarity.\<close>

definition twin_at :: "real \<Rightarrow> financial_twin" where
  "twin_at s =
     \<lparr>ft_id = ''CASE'', ft_borrower_id = ''B'', ft_age = 40, ft_credit_score = 700,
      ft_income = 50000, ft_debt = 0, ft_assets = 0, ft_loan_amount = 10000,
      ft_tenure = 36, ft_employment = ''salaried'', ft_sector = ''it'',
      ft_purpose = ''personal'', ft_region = ''north'', ft_decision = ''APPROVED'',
      ft_outcome = ''REPAID'', ft_days_late = 0, similarity = s\<rparr>"

definition ten_twins :: "financial_twin list" where
  "ten_twins =
     [twin_at (9 / 10), twin_at (9 / 10), twin_at (9 / 10), twin_at (9 / 10),
      twin_at (9 / 10), twin_at (9 / 10), twin_at (9 / 10), twin_at (9 / 10),
      twin_at (9 / 10), twin_at (45 / 100)]"

section \<open>Auxiliary facts\<close>

lemma decision_base_result [simp]: "decision (base_result v c r) = v"
  by (simp add: base_result_def)

lemma explain_fields [simp]:
  "decision (explain l t d app) = decision d"
  "confidence (explain l t d app) = confidence d"
  "is_fraud_suspect (explain l t d app) = is_fraud_suspect d"
  "conditions (explain l t d app) = conditions d"
  "recommended_amount (explain l t d app) = recommended_amount d"
  "roadmap (explain l t d app) = roadmap d"
  "alternative_offer (explain l t d app) = alternative_offer d"
  "nudge (explain l t d app) = nudge d"
  "analysis (explain l t d app) = analysis d"
  by (simp_all add: explain_def)

lemma sum_indicator:
  "sum_list (map (\<lambda>r. if P r then 1 else 0) xs) = length (filter P xs)"
  by (induction xs) auto

lemma sum_fraud_flags:
  "sum_list (fraud_flags rs)
     = length (filter (\<lambda>r. p_is_fraud_suspect (payload r)) (take 20 rs))"
  unfolding fraud_flags_def by (rule sum_indicator)

lemma count_outcome_filter:
  "count_outcome l rs = length (filter (\<lambda>r. p_outcome (payload r) = l) rs)"
  by (induction rs) auto

lemma sum_scores_sum_list: "sum_scores rs = sum_list (map score rs)"
  by (induction rs) auto

lemma avg_similarity_analyze:
  "rs \<noteq> [] \<Longrightarrow>
     avg_similarity (analyze_twins rs) = sum_list (map score rs) / real (length rs)"
  by (simp add: analyze_twins_def Let_def sum_scores_sum_list)

lemma four_counts:
  "count_outcome ''success'' rs + count_outcome ''default'' rs
     + count_outcome ''late_payments'' rs + count_outcome ''rejected'' rs \<le> length rs"
  by (induction rs) auto

lemma make_decision_verdict:
  "make_decision a app = Inr d \<Longrightarrow>
     decision d =
       (if 99 / 100 \<le> success_rate a \<and> default_rate a < 5 / 100 then APPROVED
        else if 90 / 100 \<le> success_rate a \<and> default_rate a < 10 / 100
          then APPROVED_WITH_CONDITIONS
        else if 85 / 100 \<le> success_rate a then MANUAL_REVIEW
        else REJECTED)"
  by (auto simp: make_decision_def Let_def split: if_splits option.splits)

lemma make_decision_returns:
  assumes "requested_amount app \<noteq> PyNone
           \<or> \<not> (90 / 100 \<le> success_rate a \<and> default_rate a < 10 / 100
                  \<and> 5 / 100 < default_rate a)"
  shows "\<exists>d. make_decision a app = Inr d"
proof (cases "requested_amount app")
  case PyNone
  with assms show ?thesis
    by (auto simp: make_decision_def Let_def)
qed (auto simp: make_decision_def Let_def get_default_def)

lemma make_decision_raises:
  assumes "requested_amount app = PyNone"
    and "90 / 100 \<le> success_rate a" and "5 / 100 < default_rate a"
    and "default_rate a < 10 / 100"
  shows "make_decision a app = Inl TypeError"
  using assms by (simp add: make_decision_def Let_def get_default_def)

lemma conditional_cohort_rates:
  "success_rate (analyze_twins conditional_cohort) = 92 / 100"
  "default_rate (analyze_twins conditional_cohort) = 8 / 100"
  "late_rate (analyze_twins conditional_cohort) = 0"
proof -
  have c: "count_outcome ''success'' conditional_cohort = 92"
    "count_outcome ''default'' conditional_cohort = 8"
    "count_outcome ''late_payments'' conditional_cohort = 0"
    by (simp_all add: conditional_cohort_def count_outcome_filter good_case_def bad_case_def
        stored_case_def)
  have l: "length conditional_cohort = 100"
    by (simp add: conditional_cohort_def)
  show "success_rate (analyze_twins conditional_cohort) = 92 / 100"
    "default_rate (analyze_twins conditional_cohort) = 8 / 100"
    "late_rate (analyze_twins conditional_cohort) = 0"
    by (simp_all add: analyze_twins_def Let_def c l)
qed

text \<open>
  Where \<^verbatim>\<open>make_decision\<close> returns, its verdict is the one of the threshold table,
  the first matching row winning; and it returns on every statistics record unless the
  amount is bound to \<^verbatim>\<open>None\<close> and the second row is taken with a default rate above
  0.05.
\<close>

lemma make_decision_table:
  assumes "requested_amount app \<noteq> PyNone"
  shows "\<exists>d. make_decision a app = Inr d
           \<and> decision d =
               (if 99 / 100 \<le> success_rate a \<and> default_rate a < 5 / 100 then APPROVED
                else if 90 / 100 \<le> success_rate a \<and> default_rate a < 10 / 100
                  then APPROVED_WITH_CONDITIONS
                else if 85 / 100 \<le> success_rate a then MANUAL_REVIEW
                else REJECTED)"
proof -
  from assms make_decision_returns [of app a] obtain d where "make_decision a app = Inr d"
    by blast
  with make_decision_verdict [of a app d] show ?thesis by simp
qed

section \<open>The decision table\<close>

text \<open>
  Claim C1, at an application the API admits: its amount is bound to \<^verbatim>\<open>None\<close>, as
  a JSON \<^verbatim>\<open>null\<close> is. With 92 successes and 8 defaults among a hundred neighbours, and
  at the boundary of a success rate of exactly 0.90 with a default rate of exactly
  0.0999, the table says \<^verbatim>\<open>APPROVED_WITH_CONDITIONS\<close>; \<^verbatim>\<open>make_decision\<close> raises
  \<^verbatim>\<open>TypeError\<close> in \<^verbatim>\<open>application.get("requested_amount", 0) * 0.75\<close> and yields
  no verdict. The other boundary, 0.99 with 0.05, is not \<^verbatim>\<open>APPROVED\<close> and the second
  row takes it.
\<close>

theorem make_decision_null_amount_raises:
  "requested_amount null_amount_application = PyNone
   \<and> success_rate (analyze_twins conditional_cohort) = 92 / 100
   \<and> default_rate (analyze_twins conditional_cohort) = 8 / 100
   \<and> make_decision (analyze_twins conditional_cohort) null_amount_application
       = Inl TypeError
   \<and> make_decision
         ((analyze_twins conditional_cohort)
            \<lparr>success_rate := 90 / 100, default_rate := 999 / 10000\<rparr>)
         null_amount_application
       = Inl TypeError
   \<and> (\<exists>d. make_decision
               ((analyze_twins conditional_cohort)
                  \<lparr>success_rate := 99 / 100, default_rate := 5 / 100\<rparr>)
               null_amount_application
             = Inr d
          \<and> decision d = APPROVED_WITH_CONDITIONS)"
proof -
  have n: "requested_amount null_amount_application = PyNone"
    by (simp add: null_amount_application_def)
  have r1: "make_decision (analyze_twins conditional_cohort) null_amount_application
              = Inl TypeError"
    by (rule make_decision_raises [OF n]) (simp_all add: conditional_cohort_rates)
  have r2: "make_decision
              ((analyze_twins conditional_cohort)
                 \<lparr>success_rate := 90 / 100, default_rate := 999 / 10000\<rparr>)
              null_amount_application
            = Inl TypeError"
    by (rule make_decision_raises [OF n]) simp_all
  have r3: "\<exists>d. make_decision
                ((analyze_twins conditional_cohort)
                   \<lparr>success_rate := 99 / 100, default_rate := 5 / 100\<rparr>)
                null_amount_application
              = Inr d
           \<and> decision d = APPROVED_WITH_CONDITIONS"
    by (simp add: make_decision_def Let_def)
  from n r1 r2 r3 show ?thesis
    by (simp add: conditional_cohort_rates)
qed

section \<open>Cohort statistics\<close>

text \<open>
  Claim C5. \<^verbatim>\<open>analyze_twins\<close> is a function of the neighbour list alone and returns
  a statistics record on every list. On the empty list every count and rate is zero and
  nothing is divided. On a non-empty list the success, default and late rates are the
  number of neighbours whose outcome is exactly \<^verbatim>\<open>success\<close>, \<^verbatim>\<open>default\<close>,
  \<^verbatim>\<open>late_payments\<close>, divided by the number of neighbours, and the average similarity
  is the arithmetic mean of the scores.
\<close>

theorem analyze_twins_rates:
  "analyze_twins [] =
     \<lparr>total_twins = 0, success_count = 0, default_count = 0, late_count = 0,
      rejected_count = None, success_rate = 0, default_rate = 0, late_rate = 0,
      avg_similarity = 0, top_twins = []\<rparr>
   \<and> (rs \<noteq> [] \<longrightarrow>
        success_rate (analyze_twins rs)
          = real (length (filter (\<lambda>r. p_outcome (payload r) = ''success'') rs))
              / real (length rs)
      \<and> default_rate (analyze_twins rs)
          = real (length (filter (\<lambda>r. p_outcome (payload r) = ''default'') rs))
              / real (length rs)
      \<and> late_rate (analyze_twins rs)
          = real (length (filter (\<lambda>r. p_outcome (payload r) = ''late_payments'') rs))
              / real (length rs)
      \<and> avg_similarity (analyze_twins rs) = sum_list (map score rs) / real (length rs))"
  by (simp add: analyze_twins_def Let_def count_outcome_filter sum_scores_sum_list)

theorem analyze_twins_rates_witness:
  "[good_case, bad_case, good_case, good_case] \<noteq> []
   \<and> success_rate (analyze_twins [good_case, bad_case, good_case, good_case]) = 3 / 4
   \<and> default_rate (analyze_twins [good_case, bad_case, good_case, good_case]) = 1 / 4
   \<and> late_rate (analyze_twins [good_case, bad_case, good_case, good_case]) = 0
   \<and> avg_similarity (analyze_twins [good_case, bad_case, good_case, good_case]) = 8 / 10"
  using analyze_twins_rates [of "[good_case, bad_case, good_case, good_case]"]
  by (simp add: good_case_def bad_case_def stored_case_def)

text \<open>
  On a non-empty neighbour list the dictionary holds the four counts and they add up to
  at most the total: a neighbour with any other outcome is in the total and in no
  count.
\<close>

lemma analyze_twins_counts_bounded:
  assumes "rs \<noteq> []"
  shows "\<exists>n. rejected_count (analyze_twins rs) = Some n
           \<and> success_count (analyze_twins rs) + default_count (analyze_twins rs)
               + late_count (analyze_twins rs) + n
             \<le> total_twins (analyze_twins rs)"
  using assms four_counts [of rs]
  by (simp add: analyze_twins_def Let_def)

text \<open>
  Claim C6, at the empty neighbour list. The claim's sum names \<^verbatim>\<open>rejected_count\<close>;
  the dictionary \<^verbatim>\<open>analyze_twins\<close> builds for the empty list has no such key (the
  other three counts are there, and zero), while the branch for a non-empty list sets
  it, here to zero for one success.
\<close>

theorem analyze_twins_empty_lacks_rejected_count:
  "rejected_count (analyze_twins []) = None
   \<and> success_count (analyze_twins []) = 0 \<and> default_count (analyze_twins []) = 0
   \<and> late_count (analyze_twins []) = 0 \<and> total_twins (analyze_twins []) = 0
   \<and> rejected_count (analyze_twins [good_case]) = Some 0"
  by (simp add: analyze_twins_def good_case_def stored_case_def)

section \<open>The evaluation\<close>

lemma find_twins_few:
  assumes "(case search_similar (create_application_vector app VECTOR_SIZE) top_k
              (amount_filters app) of Inl e \<Rightarrow> [] | Inr rs \<Rightarrow> rs) = rs"
    and "length rs < 10"
  shows "find_twins search_similar llm tmpl app top_k =
         Inr (explain llm tmpl
                ((base_result ANOMALY_DETECTED 0 (Only_found (length rs)))
                   \<lparr>twins_found := Some (length rs),
                    action := Some ''MANUAL_REVIEW_REQUIRED''\<rparr>) app)"
  using assms by (simp add: find_twins_def Let_def)

text \<open>
  Claim C2. When the index returns at least ten neighbours and either at least five of
  the first twenty carry the fraud-suspect flag or the mean similarity of all neighbours
  exceeds 0.999, \<^verbatim>\<open>find_twins\<close> returns the verdict \<^verbatim>\<open>REJECTED\<close> with confidence
  exactly 1 and the fraud flag set, whatever the outcomes of the cohort; the returned
  dictionary has no conditions, no recommended amount, no roadmap, no alternative offer
  and no nudge, the steps that attach them being skipped.
\<close>

theorem find_twins_fraud_override:
  assumes "search_similar (create_application_vector app VECTOR_SIZE) top_k
             (amount_filters app) = Inr rs"
    and "10 \<le> length rs"
    and "5 \<le> length (filter (\<lambda>r. p_is_fraud_suspect (payload r)) (take 20 rs))
         \<or> 999 / 1000 < sum_list (map score rs) / real (length rs)"
  shows "\<exists>r. find_twins search_similar llm tmpl app top_k = Inr r
           \<and> decision r = REJECTED \<and> confidence r = 1 \<and> is_fraud_suspect r = Some True
           \<and> conditions r = None \<and> recommended_amount r = Absent
           \<and> roadmap r = None \<and> alternative_offer r = None \<and> nudge r = None"
proof -
  from assms(2) have ne: "rs \<noteq> []" by auto
  have fr: "5 \<le> sum_list (fraud_flags rs)
            \<or> FRAUD_SIMILARITY_LIMIT < avg_similarity (analyze_twins rs)"
    using assms(3)
    by (simp add: sum_fraud_flags avg_similarity_analyze [OF ne] FRAUD_SIMILARITY_LIMIT_def)
  have "find_twins search_similar llm tmpl app top_k =
        Inr (explain llm tmpl ((base_result REJECTED 1 Identity_anomaly)
               \<lparr>is_fraud_suspect := Some True, analysis := Some (analyze_twins rs)\<rparr>) app)"
    using assms(1,2) fr by (simp add: find_twins_def Let_def)
  then show ?thesis by (simp add: base_result_def)
qed

theorem find_twins_fraud_override_witness:
  "10 \<le> length flagged_cohort
   \<and> 5 \<le> length (filter (\<lambda>r. p_is_fraud_suspect (payload r)) (take 20 flagged_cohort))
   \<and> (\<exists>r. find_twins (fixed_index flagged_cohort) no_llm plain_template test_application 100
              = Inr r
          \<and> decision r = REJECTED \<and> confidence r = 1 \<and> is_fraud_suspect r = Some True
          \<and> conditions r = None \<and> recommended_amount r = Absent
          \<and> roadmap r = None \<and> alternative_offer r = None \<and> nudge r = None)"
proof -
  have q: "fixed_index flagged_cohort (create_application_vector test_application VECTOR_SIZE)
             100 (amount_filters test_application) = Inr flagged_cohort"
    by (simp add: fixed_index_def)
  have n: "10 \<le> length flagged_cohort"
    by (simp add: flagged_cohort_def)
  have f: "5 \<le> length (filter (\<lambda>r. p_is_fraud_suspect (payload r)) (take 20 flagged_cohort))"
    by (simp add: flagged_cohort_def flagged_case_def good_case_def stored_case_def)
  from find_twins_fraud_override
         [of "fixed_index flagged_cohort" test_application 100 flagged_cohort
             no_llm plain_template]
       q n f
  show ?thesis by blast
qed

text \<open>
  Claim C3. When the index query raises, \<^verbatim>\<open>find_twins\<close> returns what it returns on an
  index that answers with no neighbour, and raises nothing; and on every neighbour list
  shorter than ten, the empty one included, the verdict is \<^verbatim>\<open>ANOMALY_DETECTED\<close>,
  whatever the neighbours' outcomes.
\<close>

theorem find_twins_degrades_to_anomaly:
  "(search_similar (create_application_vector app VECTOR_SIZE) top_k (amount_filters app)
      = Inl e \<longrightarrow>
      find_twins search_similar llm tmpl app top_k
        = find_twins (\<lambda>vector k filters. Inr []) llm tmpl app top_k
      \<and> (\<exists>r. find_twins search_similar llm tmpl app top_k = Inr r
               \<and> decision r = ANOMALY_DETECTED \<and> twins_found r = Some 0))
   \<and> (search_similar (create_application_vector app VECTOR_SIZE) top_k (amount_filters app)
        = Inr rs \<and> length rs < 10 \<longrightarrow>
      (\<exists>r. find_twins search_similar llm tmpl app top_k = Inr r
             \<and> decision r = ANOMALY_DETECTED \<and> twins_found r = Some (length rs)))"
proof (intro conjI impI)
  assume q: "search_similar (create_application_vector app VECTOR_SIZE) top_k
               (amount_filters app) = Inl e"
  have a: "find_twins search_similar llm tmpl app top_k =
           Inr (explain llm tmpl
                  ((base_result ANOMALY_DETECTED 0 (Only_found (length ([] :: neighbor list))))
                     \<lparr>twins_found := Some (length ([] :: neighbor list)),
                      action := Some ''MANUAL_REVIEW_REQUIRED''\<rparr>) app)"
    by (rule find_twins_few) (simp_all add: q)
  have b: "find_twins (\<lambda>vector k filters. Inr []) llm tmpl app top_k =
           Inr (explain llm tmpl
                  ((base_result ANOMALY_DETECTED 0 (Only_found (length ([] :: neighbor list))))
                     \<lparr>twins_found := Some (length ([] :: neighbor list)),
                      action := Some ''MANUAL_REVIEW_REQUIRED''\<rparr>) app)"
    by (rule find_twins_few) simp_all
  show "find_twins search_similar llm tmpl app top_k
          = find_twins (\<lambda>vector k filters. Inr []) llm tmpl app top_k"
    by (simp only: a b)
  show "\<exists>r. find_twins search_similar llm tmpl app top_k = Inr r
             \<and> decision r = ANOMALY_DETECTED \<and> twins_found r = Some 0"
    by (simp add: a explain_def base_result_def)
next
  assume q: "search_similar (create_application_vector app VECTOR_SIZE) top_k
               (amount_filters app) = Inr rs \<and> length rs < 10"
  have "find_twins search_similar llm tmpl app top_k =
        Inr (explain llm tmpl
               ((base_result ANOMALY_DETECTED 0 (Only_found (length rs)))
                  \<lparr>twins_found := Some (length rs),
                   action := Some ''MANUAL_REVIEW_REQUIRED''\<rparr>) app)"
    by (rule find_twins_few) (simp_all add: q)
  then show "\<exists>r. find_twins search_similar llm tmpl app top_k = Inr r
                  \<and> decision r = ANOMALY_DETECTED \<and> twins_found r = Some (length rs)"
    by (simp add: explain_def base_result_def)
qed

theorem find_twins_degrades_to_anomaly_witness:
  "failing_index (create_application_vector test_application VECTOR_SIZE) 100
       (amount_filters test_application) = Inl SearchError
   \<and> find_twins failing_index no_llm plain_template test_application 100
       = find_twins (\<lambda>vector k filters. Inr []) no_llm plain_template test_application 100
   \<and> (\<exists>r. find_twins failing_index no_llm plain_template test_application 100 = Inr r
          \<and> decision r = ANOMALY_DETECTED \<and> twins_found r = Some 0)
   \<and> fixed_index small_cohort (create_application_vector test_application VECTOR_SIZE) 100
       (amount_filters test_application) = Inr small_cohort
   \<and> length small_cohort < 10
   \<and> (\<exists>r. find_twins (fixed_index small_cohort) no_llm plain_template test_application 100
            = Inr r
          \<and> decision r = ANOMALY_DETECTED \<and> twins_found r = Some (length small_cohort))"
proof -
  have q1: "failing_index (create_application_vector test_application VECTOR_SIZE) 100
              (amount_filters test_application) = Inl SearchError"
    by (simp add: failing_index_def)
  have q2: "fixed_index small_cohort (create_application_vector test_application VECTOR_SIZE)
              100 (amount_filters test_application) = Inr small_cohort"
    by (simp add: fixed_index_def)
  have n: "length small_cohort < 10"
    by (simp add: small_cohort_def)
  from find_twins_degrades_to_anomaly
         [of failing_index test_application 100 SearchError no_llm plain_template small_cohort]
       find_twins_degrades_to_anomaly
         [of "fixed_index small_cohort" test_application 100 SearchError no_llm plain_template
             small_cohort]
       q1 q2 n
  show ?thesis by blast
qed

text \<open>
  Claim C4. Whenever \<^verbatim>\<open>make_decision\<close> yields the verdict
  \<^verbatim>\<open>APPROVED_WITH_CONDITIONS\<close> the list of conditions is not empty: a default rate
  above 0.05 attaches the reduction of the amount and sets the recommended amount to 75%
  of the requested one (of 0 when the application has no such key); a late rate above
  0.10 attaches the interest premium; when neither holds, the list is the one condition
  of enhanced monitoring. The verdict is yielded on every statistics record of the
  table's second row, unless the amount is bound to \<^verbatim>\<open>None\<close> and the default rate
  is above 0.05.
\<close>

theorem make_decision_conditions:
  "(\<not> (99 / 100 \<le> success_rate a \<and> default_rate a < 5 / 100)
      \<and> 90 / 100 \<le> success_rate a \<and> default_rate a < 10 / 100
      \<and> (requested_amount app \<noteq> PyNone \<or> \<not> 5 / 100 < default_rate a)
    \<longrightarrow> (\<exists>d. make_decision a app = Inr d \<and> decision d = APPROVED_WITH_CONDITIONS))
   \<and> (\<forall>d. make_decision a app = Inr d \<and> decision d = APPROVED_WITH_CONDITIONS \<longrightarrow>
         (\<exists>cs. conditions d = Some cs \<and> cs \<noteq> []
            \<and> (5 / 100 < default_rate a \<longrightarrow>
                 ''Mandatory 25% reduction in requested amount'' \<in> set cs
                 \<and> (\<exists>x. get_default (requested_amount app) 0 = Some x
                        \<and> recommended_amount d = Present (x * (75 / 100))))
            \<and> (10 / 100 < late_rate a \<longrightarrow>
                 ''Interest rate premium (+1.5% APR)'' \<in> set cs)
            \<and> (\<not> 5 / 100 < default_rate a \<and> \<not> 10 / 100 < late_rate a \<longrightarrow>
                 cs = [''Standard conditions with enhanced monitoring''])))"
proof (intro conjI impI allI)
  assume h: "\<not> (99 / 100 \<le> success_rate a \<and> default_rate a < 5 / 100)
             \<and> 90 / 100 \<le> success_rate a \<and> default_rate a < 10 / 100
             \<and> (requested_amount app \<noteq> PyNone \<or> \<not> 5 / 100 < default_rate a)"
  then obtain d where d: "make_decision a app = Inr d"
    using make_decision_returns [of app a] by blast
  with h make_decision_verdict [OF d]
  show "\<exists>d. make_decision a app = Inr d \<and> decision d = APPROVED_WITH_CONDITIONS"
    by simp
next
  fix d
  assume h: "make_decision a app = Inr d \<and> decision d = APPROVED_WITH_CONDITIONS"
  with make_decision_verdict [of a app d]
  have row: "\<not> (99 / 100 \<le> success_rate a \<and> default_rate a < 5 / 100)"
    "90 / 100 \<le> success_rate a \<and> default_rate a < 10 / 100"
    by (simp_all split: if_splits)
  from h have "make_decision a app = Inr d" by simp
  with row
  show "\<exists>cs. conditions d = Some cs \<and> cs \<noteq> []
          \<and> (5 / 100 < default_rate a \<longrightarrow>
               ''Mandatory 25% reduction in requested amount'' \<in> set cs
               \<and> (\<exists>x. get_default (requested_amount app) 0 = Some x
                      \<and> recommended_amount d = Present (x * (75 / 100))))
          \<and> (10 / 100 < late_rate a \<longrightarrow>
               ''Interest rate premium (+1.5% APR)'' \<in> set cs)
          \<and> (\<not> 5 / 100 < default_rate a \<and> \<not> 10 / 100 < late_rate a \<longrightarrow>
               cs = [''Standard conditions with enhanced monitoring''])"
    by (auto simp: make_decision_def Let_def base_result_def
        split: if_splits option.splits)
qed

theorem make_decision_conditions_witness:
  "\<exists>d. make_decision (analyze_twins conditional_cohort) test_application = Inr d
      \<and> decision d = APPROVED_WITH_CONDITIONS
      \<and> conditions d = Some [''Mandatory 25% reduction in requested amount'']
      \<and> recommended_amount d = Present 11250"
proof -
  let ?a = "analyze_twins conditional_cohort"
  have p: "requested_amount test_application \<noteq> PyNone"
    "get_default (requested_amount test_application) 0 = Some 15000"
    by (simp_all add: test_application_def get_default_def)
  from make_decision_conditions [of ?a test_application] p(1)
  obtain d where d: "make_decision ?a test_application = Inr d"
    "decision d = APPROVED_WITH_CONDITIONS"
    by (auto simp: conditional_cohort_rates)
  from make_decision_conditions [of ?a test_application] d
  obtain cs where cs: "conditions d = Some cs"
    "''Mandatory 25% reduction in requested amount'' \<in> set cs"
    "recommended_amount d = Present 11250"
    by (auto simp: conditional_cohort_rates p(2))
  from d(1) have "conditions d = Some [''Mandatory 25% reduction in requested amount'']"
    by (auto simp: make_decision_def Let_def base_result_def conditional_cohort_rates
        split: if_splits option.splits)
  with d cs show ?thesis by blast
qed

section \<open>The in-process anomaly score and similarity\<close>

text \<open>
  Claim C7. On a non-empty twin list the anomaly score is
  \<open>0.4 * (1 - top) + 0.3 * decay + 0.3 * (1 - mean)\<close> clamped to the interval from 0 to
  1, where \<open>top\<close> is the similarity of the first twin, \<open>mean\<close> the mean similarity, and
  \<open>decay\<close> is \<open>(top1 - top10) / top1\<close> when there are at least ten twins and
  \<open>top1 > 0\<close>, and zero otherwise.
\<close>

theorem calculate_anomaly_score_formula:
  assumes "twins \<noteq> []"
  shows "calculate_anomaly_score twins =
           min 1 (max 0
             (4 / 10 * (1 - similarity (hd twins))
              + 3 / 10 * (if 10 \<le> length twins \<and> 0 < similarity (hd twins)
                          then (similarity (hd twins) - similarity (twins ! 9))
                                 / similarity (hd twins)
                          else 0)
              + 3 / 10 * (1 - sum_list (map similarity twins) / real (length twins))))
         \<and> 0 \<le> calculate_anomaly_score twins \<and> calculate_anomaly_score twins \<le> 1"
proof -
  from assms have h: "twins ! 0 = hd twins" "length twins \<noteq> 0"
    by (simp_all add: hd_conv_nth)
  have m: "10 \<le> length twins \<Longrightarrow> twins ! min 9 (length twins - 1) = twins ! 9"
    by (simp add: min_def)
  have eq: "calculate_anomaly_score twins =
           min 1 (max 0
             (4 / 10 * (1 - similarity (hd twins))
              + 3 / 10 * (if 10 \<le> length twins \<and> 0 < similarity (hd twins)
                          then (similarity (hd twins) - similarity (twins ! 9))
                                 / similarity (hd twins)
                          else 0)
              + 3 / 10 * (1 - sum_list (map similarity twins) / real (length twins))))"
    using h m
    by (auto simp add: calculate_anomaly_score_def Let_def mult.commute
        simp del: One_nat_def)
  have "0 \<le> calculate_anomaly_score twins \<and> calculate_anomaly_score twins \<le> 1"
    unfolding eq by simp
  with eq show ?thesis by simp
qed

theorem calculate_anomaly_score_formula_witness:
  "ten_twins \<noteq> [] \<and> calculate_anomaly_score ten_twins = 2335 / 10000"
proof -
  have ne: "ten_twins \<noteq> []"
    by (simp add: ten_twins_def)
  from calculate_anomaly_score_formula [OF ne] ne
  show ?thesis
    by (simp add: ten_twins_def twin_at_def)
qed

lemma cosine_similarity_aligned:
  "length vec_a = length vec_b \<Longrightarrow>
     cosine_similarity vec_a vec_b =
       (if np_norm vec_a = 0 \<or> np_norm vec_b = 0 then Inr 0
        else Inr (sum_list (map (\<lambda>(x, y). x * y) (zip vec_a vec_b))
                    / (np_norm vec_a * np_norm vec_b)))"
  by (simp add: cosine_similarity_def np_dot_def Let_def)

lemma cosine_similarity_misaligned:
  "length vec_a \<noteq> length vec_b \<Longrightarrow> cosine_similarity vec_a vec_b = Inl ValueError"
  by (simp add: cosine_similarity_def np_dot_def)

text \<open>
  Claim C10, as the code has it. The guard on the norms is reached only after
  \<^verbatim>\<open>np.dot\<close>, which raises on two vectors of different lengths: with a zero vector of
  length one and a vector of length two the call raises and does not return 0.
\<close>

theorem cosine_similarity_misaligned_counterexample:
  "np_norm [0] = 0 \<and> cosine_similarity [0] [1, 2] = Inl ValueError
   \<and> cosine_similarity [0] [1, 2] \<noteq> Inr 0"
  by (simp add: cosine_similarity_def np_dot_def np_norm_def)

text \<open>
  Claim C10, amended. For every pair of vectors of the same length
  \<^verbatim>\<open>cosine_similarity\<close> returns a number; it returns 0 whenever either vector has
  zero norm, and otherwise the dot product divided by a product of norms that is not
  zero, so it never divides by zero.
\<close>

theorem cosine_similarity_zero_norm:
  assumes "length vec_a = length vec_b"
  shows "(\<exists>s. cosine_similarity vec_a vec_b = Inr s)
         \<and> (np_norm vec_a = 0 \<or> np_norm vec_b = 0 \<longrightarrow> cosine_similarity vec_a vec_b = Inr 0)
         \<and> (np_norm vec_a \<noteq> 0 \<and> np_norm vec_b \<noteq> 0 \<longrightarrow>
              np_norm vec_a * np_norm vec_b \<noteq> 0
              \<and> cosine_similarity vec_a vec_b
                  = Inr (sum_list (map (\<lambda>(x, y). x * y) (zip vec_a vec_b))
                           / (np_norm vec_a * np_norm vec_b)))"
  by (simp add: cosine_similarity_aligned [OF assms])

theorem cosine_similarity_zero_norm_witness:
  "length [0, 0 :: real] = length [1, 2 :: real] \<and> np_norm [0, 0] = 0
   \<and> cosine_similarity [0, 0] [1, 2] = Inr 0
   \<and> np_norm [1, 0] \<noteq> 0 \<and> cosine_similarity [1, 0] [1, 0] = Inr 1"
proof -
  have l: "length [0, 0 :: real] = length [1, 2 :: real]"
    "length [1, 0 :: real] = length [1, 0 :: real]"
    by simp_all
  have n: "np_norm [0, 0] = 0" "np_norm [1, 0] = 1"
    by (simp_all add: np_norm_def)
  from cosine_similarity_zero_norm [OF l(1)] cosine_similarity_zero_norm [OF l(2)] n
  show ?thesis by simp
qed

section \<open>Feature encoding\<close>
















section \<open>The roadmap of a rejection\<close>

lemma smart_nudge_fields [simp]:
  "decision (smart_nudge app d) = decision d"
  "roadmap (smart_nudge app d) = roadmap d"
  by (simp_all add: smart_nudge_def)

lemma make_roadmap_present:
  "p_fico p = Present f \<Longrightarrow> p_dti p = Present d \<Longrightarrow>
     make_roadmap p =
       Inr \<lparr>target_fico = f, target_dti = py_round d 1, message_fico = py_int f,
            message_dti = Some d\<rparr>"
  by (simp add: make_roadmap_def get_default_def get_entry_def)

lemma make_roadmap_none:
  "p_dti p = PyNone \<or> p_fico p = PyNone \<Longrightarrow> make_roadmap p = Inl TypeError"
  by (auto simp: make_roadmap_def get_default_def split: entry.splits)

lemma make_offer_returns:
  "requested_amount app \<noteq> PyNone \<Longrightarrow> \<exists>off. make_offer rs app = Inr off"
  by (cases "requested_amount app") (simp_all add: make_offer_def Let_def get_default_def)

lemma rejected_signals_roadmap:
  assumes "requested_amount app \<noteq> PyNone"
  shows "case filter (\<lambda>r. p_is_comeback_story (payload r)) rs of
     [] \<Rightarrow> \<exists>d'. rejected_signals rs app d = Inr d' \<and> decision d' = decision d
                 \<and> roadmap d' = roadmap d
   | c # cs \<Rightarrow>
       (case make_roadmap (payload c) of
          Inl e \<Rightarrow> rejected_signals rs app d = Inl e
        | Inr rm \<Rightarrow> \<exists>d'. rejected_signals rs app d = Inr d' \<and> decision d' = decision d
                        \<and> roadmap d' = Some rm)"
proof -
  from make_offer_returns [OF assms] obtain off where "make_offer rs app = Inr off"
    by blast
  then show ?thesis
    by (simp add: rejected_signals_def Let_def split: list.splits sum.splits option.splits)
qed

text \<open>
  What the code does on the normal path to a rejection, for an application whose amount
  is not \<^verbatim>\<open>None\<close>: without a comeback story no roadmap is attached; with one, the
  roadmap is built from the first in the order of the list, and the evaluation raises
  when that payload holds \<^verbatim>\<open>None\<close> for its DTI or its FICO.
\<close>

lemma find_twins_rejected_roadmap:
  assumes "search_similar (create_application_vector app VECTOR_SIZE) top_k
             (amount_filters app) = Inr rs"
    and "10 \<le> length rs"
    and "\<not> (5 \<le> sum_list (fraud_flags rs)
            \<or> FRAUD_SIMILARITY_LIMIT < avg_similarity (analyze_twins rs))"
    and "make_decision (analyze_twins rs) app = Inr d"
    and "decision d = REJECTED"
    and "requested_amount app \<noteq> PyNone"
  shows "case filter (\<lambda>r. p_is_comeback_story (payload r)) rs of
           [] \<Rightarrow> \<exists>r. find_twins search_similar llm tmpl app top_k = Inr r
                      \<and> decision r = REJECTED \<and> roadmap r = None
         | c # cs \<Rightarrow>
             (case make_roadmap (payload c) of
                Inl e \<Rightarrow> find_twins search_similar llm tmpl app top_k = Inl e
              | Inr rm \<Rightarrow> \<exists>r. find_twins search_similar llm tmpl app top_k = Inr r
                             \<and> decision r = REJECTED \<and> roadmap r = Some rm)"
proof -
  have f: "find_twins search_similar llm tmpl app top_k =
           (case rejected_signals rs app d of
              Inl e \<Rightarrow> Inl e
            | Inr d' \<Rightarrow> Inr (explain llm tmpl (smart_nudge app d') app))"
    using assms(1-5) by (simp add: find_twins_def Let_def)
  have r0: "roadmap d = None"
    using assms(4)
    by (auto simp: make_decision_def Let_def base_result_def split: if_splits option.splits)
  show ?thesis
    using rejected_signals_roadmap [OF assms(6), of rs d] assms(5) r0
    by (auto simp: f split: list.splits sum.splits)
qed

text \<open>
  Claim C9, at a cohort the index can return. Ten neighbours, all defaults, raise no
  fraud signal and lead to the verdict \<^verbatim>\<open>REJECTED\<close>; the first of them is a comeback
  story whose DTI was stored as \<^verbatim>\<open>None\<close>. The claim promises a roadmap from that
  neighbour; the evaluation raises \<^verbatim>\<open>TypeError\<close> in \<^verbatim>\<open>round(None, 1)\<close> and returns
  nothing.
\<close>

theorem find_twins_roadmap_raises:
  "length failing_cohort = 10
   \<and> sum_list (fraud_flags failing_cohort) = 0
   \<and> avg_similarity (analyze_twins failing_cohort) = 8 / 10
   \<and> (\<exists>d. make_decision (analyze_twins failing_cohort) test_application = Inr d
          \<and> decision d = REJECTED)
   \<and> p_is_comeback_story (payload (hd failing_cohort))
   \<and> find_twins (fixed_index failing_cohort) no_llm plain_template test_application 100
       = Inl TypeError"
proof -
  have q: "fixed_index failing_cohort (create_application_vector test_application VECTOR_SIZE)
             100 (amount_filters test_application) = Inr failing_cohort"
    by (simp add: fixed_index_def)
  have n: "length failing_cohort = 10"
    by (simp add: failing_cohort_def)
  have s: "sum_list (fraud_flags failing_cohort) = 0"
    by (simp add: sum_fraud_flags failing_cohort_def comeback_without_dti_def bad_case_def
        stored_case_def)
  have a: "avg_similarity (analyze_twins failing_cohort) = 8 / 10"
    "success_rate (analyze_twins failing_cohort) = 0"
    by (simp_all add: analyze_twins_def failing_cohort_def comeback_without_dti_def
        bad_case_def stored_case_def)
  have p: "requested_amount test_application \<noteq> PyNone"
    by (simp add: test_application_def)
  from make_decision_table [OF p, of "analyze_twins failing_cohort"]
  obtain d where d: "make_decision (analyze_twins failing_cohort) test_application = Inr d"
    "decision d = REJECTED"
    by (auto simp: a)
  have c: "filter (\<lambda>r. p_is_comeback_story (payload r)) failing_cohort
             = [comeback_without_dti]"
    by (simp add: failing_cohort_def comeback_without_dti_def bad_case_def stored_case_def)
  have h: "p_is_comeback_story (payload (hd failing_cohort))"
    by (simp add: failing_cohort_def comeback_without_dti_def stored_case_def)
  have m: "make_roadmap (payload comeback_without_dti) = Inl TypeError"
    by (rule make_roadmap_none) (simp add: comeback_without_dti_def stored_case_def)
  have nf: "\<not> (5 \<le> sum_list (fraud_flags failing_cohort)
               \<or> FRAUD_SIMILARITY_LIMIT < avg_similarity (analyze_twins failing_cohort))"
    by (simp add: s a FRAUD_SIMILARITY_LIMIT_def)
  have n10: "10 \<le> length failing_cohort"
    by (simp add: n)
  from find_twins_rejected_roadmap
         [of "fixed_index failing_cohort" test_application 100 failing_cohort d
             no_llm plain_template, OF q n10 nf d p]
  have "find_twins (fixed_index failing_cohort) no_llm plain_template test_application 100
          = Inl TypeError"
    by (simp add: c m)
  with n s a(1) d h show ?thesis by blast
qed

text \<open>
  The same evaluation where the payloads hold their numbers: the first comeback story in
  the order of the list gives the roadmap, here the second neighbour and not the seventh.
\<close>

lemma find_twins_roadmap_first_comeback:
  "\<exists>r. find_twins (fixed_index rejected_cohort) no_llm plain_template test_application 100
          = Inr r
      \<and> decision r = REJECTED
      \<and> roadmap r = Some \<lparr>target_fico = 700, target_dti = 123 / 10, message_fico = 700,
                           message_dti = Some (1234 / 100)\<rparr>"
proof -
  have q: "fixed_index rejected_cohort (create_application_vector test_application VECTOR_SIZE)
             100 (amount_filters test_application) = Inr rejected_cohort"
    by (simp add: fixed_index_def)
  have n10: "10 \<le> length rejected_cohort"
    by (simp add: rejected_cohort_def)
  have s: "sum_list (fraud_flags rejected_cohort) = 0"
    by (simp add: sum_fraud_flags rejected_cohort_def comeback_without_dti_def bad_case_def
        comeback_case_def stored_case_def)
  have a: "avg_similarity (analyze_twins rejected_cohort) = 8 / 10"
    "success_rate (analyze_twins rejected_cohort) = 0"
    by (simp_all add: analyze_twins_def rejected_cohort_def comeback_without_dti_def
        bad_case_def comeback_case_def stored_case_def)
  have p: "requested_amount test_application \<noteq> PyNone"
    by (simp add: test_application_def)
  from make_decision_table [OF p, of "analyze_twins rejected_cohort"]
  obtain d where d: "make_decision (analyze_twins rejected_cohort) test_application = Inr d"
    "decision d = REJECTED"
    by (auto simp: a)
  have c: "filter (\<lambda>r. p_is_comeback_story (payload r)) rejected_cohort
             = [comeback_case, comeback_without_dti]"
    by (simp add: rejected_cohort_def comeback_without_dti_def bad_case_def comeback_case_def
        stored_case_def)
  have m: "make_roadmap (payload comeback_case)
             = Inr \<lparr>target_fico = 700, target_dti = 123 / 10, message_fico = 700,
                    message_dti = Some (1234 / 100)\<rparr>"
    by (simp add: make_roadmap_def get_default_def get_entry_def comeback_case_def
        stored_case_def py_round_def round_half_even_def Let_def py_int_def)
  have nf: "\<not> (5 \<le> sum_list (fraud_flags rejected_cohort)
               \<or> FRAUD_SIMILARITY_LIMIT < avg_similarity (analyze_twins rejected_cohort))"
    by (simp add: s a FRAUD_SIMILARITY_LIMIT_def)
  from find_twins_rejected_roadmap
         [of "fixed_index rejected_cohort" test_application 100 rejected_cohort d
             no_llm plain_template, OF q n10 nf d p]
  show ?thesis
    by (simp add: c m)
qed

end
